theory Spec2Isabelle
  imports Main
begin

section \<open>The GraphQL document of Products.tsx\<close>

text \<open>
  The template literal handed to \<^verbatim>\<open>gql\<close> is kept as its syntax tree: an operation
  with a name and a selection set; every selected field has a name, its arguments and
  its own selection set.
\<close>

datatype gql_value = IntValue int | StringValue string

datatype gql_field = Selection string "(string \<times> gql_value) list" "gql_field list"

datatype gql_document = Query string "gql_field list"

definition GET_PRODUCTS :: gql_document where
  "GET_PRODUCTS =
     Query ''getProducts''
       [Selection ''products''
          [(''first'', IntValue 10), (''channel'', StringValue ''default-channel'')]
          [Selection ''edges'' []
             [Selection ''node'' []
                [Selection ''id'' [] [],
                 Selection ''name'' [] [],
                 Selection ''description'' [] [],
                 Selection ''thumbnail'' [] [Selection ''url'' [] []]]]]]"

fun operation_selections :: "gql_document \<Rightarrow> gql_field list" where
  "operation_selections (Query n fs) = fs"

text \<open>Every argument of the document, with the path of field names that leads to it.\<close>

fun field_args_at :: "string list \<Rightarrow> gql_field \<Rightarrow> (string list \<times> string \<times> gql_value) list" where
  "field_args_at p (Selection n args fs) =
     map (\<lambda>(a, v). (p @ [n], a, v)) args @ concat (map (field_args_at (p @ [n])) fs)"

definition document_arguments :: "gql_document \<Rightarrow> (string list \<times> string \<times> gql_value) list" where
  "document_arguments q = concat (map (field_args_at []) (operation_selections q))"

text \<open>The paths of the leaf fields (those selected without a selection set of their own).\<close>

fun leaf_paths :: "string list \<Rightarrow> gql_field \<Rightarrow> string list list" where
  "leaf_paths p (Selection n args fs) =
     (if fs = [] then [p @ [n]] else concat (map (leaf_paths (p @ [n])) fs))"

definition document_leaves :: "gql_document \<Rightarrow> string list list" where
  "document_leaves q = concat (map (leaf_paths []) (operation_selections q))"

section \<open>The response and the hook result\<close>

text \<open>
  The shape of the data follows the selection set. Every object the components
  dereference (\<^verbatim>\<open>data\<close>, \<^verbatim>\<open>data.products\<close>, \<^verbatim>\<open>item.node\<close>,
  \<^verbatim>\<open>item.node.thumbnail\<close>) may be absent (JavaScript \<^verbatim>\<open>undefined\<close> or
  \<^verbatim>\<open>null\<close>), which is \<open>None\<close> here.
\<close>

record Thumbnail =
  url :: string

record Product =
  id' :: string
  name :: string
  description :: string
  thumbnail :: "Thumbnail option"

record Edge =
  node :: "Product option"

record Connection =
  edges :: "Edge list"

record Data =
  products :: "Connection option"

text \<open>
  What \<^verbatim>\<open>useQuery\<close> returns. Products.tsx destructures \<^verbatim>\<open>loading\<close> and
  \<^verbatim>\<open>data\<close> only; the \<^verbatim>\<open>error\<close> field is there and is never read.
\<close>

record QueryResult =
  loading :: bool
  data :: "Data option"
  error :: "string option"

section \<open>The client of App.tsx\<close>

type_synonym InMemoryCache = "(gql_document \<times> Data) list"

definition new_InMemoryCache :: InMemoryCache where
  "new_InMemoryCache = []"

record ApolloClient =
  uri :: string
  cache :: InMemoryCache

definition client :: ApolloClient where
  "client = \<lparr>uri = ''https://demo.saleor.io/graphql/'', cache = new_InMemoryCache\<rparr>"

text \<open>
  Modelled from the spec: the external query library, which is not part of the
  repository. The environment holds what each endpoint currently answers to each
  document, and the operations that were requested so far, oldest first.
  \<^verbatim>\<open>useQuery\<close> "requests the result of one fixed query through the ambient client":
  it records the request against the client's endpoint and hands back the result.
\<close>

record Env =
  respond :: "string \<Rightarrow> gql_document \<Rightarrow> QueryResult"
  issued :: "(string \<times> gql_document) list"

definition useQuery :: "ApolloClient \<Rightarrow> gql_document \<Rightarrow> Env \<Rightarrow> QueryResult \<times> Env" where
  "useQuery c q env =
     (respond env (uri c) q, env\<lparr>issued := issued env @ [(uri c, q)]\<rparr>)"

text \<open>
  Modelled from the spec: \<^verbatim>\<open>ApolloProvider\<close> makes its client the ambient one of its
  descendants, so the children are a function of that client.
\<close>

definition ApolloProvider :: "ApolloClient \<Rightarrow> (ApolloClient \<Rightarrow> 'a) \<Rightarrow> 'a" where
  "ApolloProvider c children = children c"

section \<open>Rendered output\<close>

datatype error = TypeError

datatype style_value = Num int | Str string

type_synonym style = "(string \<times> style_value) list"

text \<open>
  The host views the components produce. \<open>FlatListView\<close> is what a \<^verbatim>\<open>FlatList\<close>
  shows: its header, its column count and its rows of keyed cells.
\<close>

datatype view =
    Text style string
  | Image' string style
  | View style "view list"
  | SafeAreaView style "view list"
  | StatusBar string
  | FlatListView view nat "(string \<times> view) list list"

record 'a ListRenderItemInfo =
  item :: 'a
  index :: nat

text \<open>
  Modelled from the spec: the \<^verbatim>\<open>FlatList\<close> component of the UI library, which is
  not part of the repository. It "projects the array into a grid": every element of
  \<^verbatim>\<open>data\<close>, in order, is rendered by \<^verbatim>\<open>renderItem\<close> and identified by
  \<^verbatim>\<open>keyExtractor\<close>; the cells are laid out in rows of \<^verbatim>\<open>numColumns\<close> under the
  header (a column count below one counts as one). An exception thrown by a callback
  aborts the render. Windowing of long lists is left out: the list shows all its cells.
\<close>

fun render_cells ::
  "('a ListRenderItemInfo \<Rightarrow> error + view) \<Rightarrow> ('a \<Rightarrow> error + string) \<Rightarrow> nat \<Rightarrow> 'a list
     \<Rightarrow> error + (string \<times> view) list" where
  "render_cells r k i [] = Inr []"
| "render_cells r k i (x # xs) =
     (case k x of
        Inl e \<Rightarrow> Inl e
      | Inr key \<Rightarrow>
          (case r \<lparr>item = x, index = i\<rparr> of
             Inl e \<Rightarrow> Inl e
           | Inr v \<Rightarrow>
               (case render_cells r k (Suc i) xs of
                  Inl e \<Rightarrow> Inl e
                | Inr cs \<Rightarrow> Inr ((key, v) # cs))))"

function rows_of :: "nat \<Rightarrow> 'a list \<Rightarrow> 'a list list" where
  "rows_of n xs =
     (if xs = [] then [] else take (max 1 n) xs # rows_of n (drop (max 1 n) xs))"
  by pat_completeness auto
termination
  by (relation "measure (\<lambda>(n, xs). length xs)") auto

definition FlatList ::
  "'a list \<Rightarrow> (unit \<Rightarrow> error + view) \<Rightarrow> ('a ListRenderItemInfo \<Rightarrow> error + view) \<Rightarrow> nat
     \<Rightarrow> ('a \<Rightarrow> error + string) \<Rightarrow> error + view" where
  "FlatList data_prop ListHeaderComponent_prop renderItem_prop numColumns_prop keyExtractor_prop =
     (case ListHeaderComponent_prop () of
        Inl e \<Rightarrow> Inl e
      | Inr h \<Rightarrow>
          (case render_cells renderItem_prop keyExtractor_prop 0 data_prop of
             Inl e \<Rightarrow> Inl e
           | Inr cs \<Rightarrow> Inr (FlatListView h numColumns_prop (rows_of numColumns_prop cs))))"

section \<open>Products.tsx\<close>

definition Products_styles_container :: style where
  "Products_styles_container = [(''flex'', Num 1), (''width'', Str ''100%'')]"

definition styles_title :: style where
  "styles_title =
     [(''width'', Str ''100%''), (''textAlign'', Str ''center''), (''fontSize'', Num 20),
      (''padding'', Num 20)]"

definition styles_product :: style where
  "styles_product =
     [(''flex'', Num 1), (''alignItems'', Str ''center''), (''justifyContent'', Str ''center''),
      (''padding'', Num 20)]"

definition ListHeaderComponent :: "unit \<Rightarrow> error + view" where
  "ListHeaderComponent u = Inr (Text styles_title ''Products'')"

text \<open>
  \<^verbatim>\<open>item.node.thumbnail.url\<close> and \<^verbatim>\<open>item.node.name\<close>: reading a property of
  \<^verbatim>\<open>null\<close> or \<^verbatim>\<open>undefined\<close> throws a TypeError.
\<close>

definition renderItem :: "Edge ListRenderItemInfo \<Rightarrow> error + view" where
  "renderItem info =
     (case node (item info) of
        None \<Rightarrow> Inl TypeError
      | Some n \<Rightarrow>
          (case thumbnail n of
             None \<Rightarrow> Inl TypeError
           | Some t \<Rightarrow>
               Inr (View styles_product
                      [Image' (url t) [(''height'', Num 150), (''width'', Num 150)],
                       Text [(''fontSize'', Num 16), (''fontWeight'', Str ''bold'')] (name n),
                       Text [] ''$4.50''])))"

definition keyExtractor :: "Edge \<Rightarrow> error + string" where
  "keyExtractor it = (case node it of None \<Rightarrow> Inl TypeError | Some n \<Rightarrow> Inr (id' n))"

definition Products :: "ApolloClient \<Rightarrow> Env \<Rightarrow> (error + view) \<times> Env" where
  "Products ctx env =
     (let (r, env') = useQuery ctx GET_PRODUCTS env
      in (if loading r then Inr (SafeAreaView Products_styles_container [Text [] ''Loading''])
          else (case data r of
                  None \<Rightarrow> Inl TypeError
                | Some d \<Rightarrow>
                    (case products d of
                       None \<Rightarrow> Inl TypeError
                     | Some p \<Rightarrow>
                         (case FlatList (edges p) ListHeaderComponent renderItem 2 keyExtractor of
                            Inl e \<Rightarrow> Inl e
                          | Inr g \<Rightarrow> Inr (SafeAreaView Products_styles_container [g])))),
          env'))"

section \<open>App.tsx\<close>

definition App_styles_container :: style where
  "App_styles_container =
     [(''flex'', Num 1), (''alignItems'', Str ''center''), (''justifyContent'', Str ''center'')]"

definition styles_header :: style where
  "styles_header =
     [(''backgroundColor'', Str ''blue''), (''width'', Str ''100%''), (''height'', Num 100)]"

definition App :: "Env \<Rightarrow> (error + view) \<times> Env" where
  "App env =
     ApolloProvider client
       (\<lambda>ctx. let (p, env') = Products ctx env
              in ((case p of
                     Inl e \<Rightarrow> Inl e
                   | Inr products_view \<Rightarrow>
                       Inr (View App_styles_container
                              [StatusBar ''auto'',
                               View styles_header
                                 [SafeAreaView App_styles_container
                                    [Text [(''color'', Str ''#fff''), (''fontSize'', Num 18)]
                                       ''React Native Demo Home Page'']],
                               products_view])),
                  env'))"

section \<open>Observations on rendered output\<close>

text \<open>The strings shown by the text views of a view, in display order.\<close>

fun view_texts :: "view \<Rightarrow> string list" where
  "view_texts (Text st s) = [s]"
| "view_texts (Image' u st) = []"
| "view_texts (View st vs) = concat (map view_texts vs)"
| "view_texts (SafeAreaView st vs) = concat (map view_texts vs)"
| "view_texts (StatusBar s) = []"
| "view_texts (FlatListView h n rows) =
     view_texts h @ concat (map (\<lambda>row. concat (map (\<lambda>c. view_texts (snd c)) row)) rows)"

text \<open>The sources of the images of a view, in display order.\<close>

fun view_images :: "view \<Rightarrow> string list" where
  "view_images (Text st s) = []"
| "view_images (Image' u st) = [u]"
| "view_images (View st vs) = concat (map view_images vs)"
| "view_images (SafeAreaView st vs) = concat (map view_images vs)"
| "view_images (StatusBar s) = []"
| "view_images (FlatListView h n rows) =
     view_images h @ concat (map (\<lambda>row. concat (map (\<lambda>c. view_images (snd c)) row)) rows)"

text \<open>The grids of a view: the column count and the rows of each.\<close>

fun grids :: "view \<Rightarrow> (nat \<times> (string \<times> view) list list) list" where
  "grids (Text st s) = []"
| "grids (Image' u st) = []"
| "grids (View st vs) = concat (map grids vs)"
| "grids (SafeAreaView st vs) = concat (map grids vs)"
| "grids (StatusBar s) = []"
| "grids (FlatListView h n rows) = [(n, rows)]"

text \<open>
  An edge the item callbacks can read: its node is present and the node has a thumbnail.
\<close>

definition renderable :: "Edge \<Rightarrow> bool" where
  "renderable e = (case node e of None \<Rightarrow> False | Some n \<Rightarrow> thumbnail n \<noteq> None)"

text \<open>The operations requested between an environment and a later one.\<close>

definition requests_of :: "Env \<Rightarrow> Env \<Rightarrow> (string \<times> gql_document) list" where
  "requests_of env env' = drop (length (issued env)) (issued env')"

text \<open>
  Two results differ only in their description values when they are equal once every
  description is blanked.
\<close>

definition blank_description :: "Edge \<Rightarrow> Edge" where
  "blank_description e = e\<lparr>node := map_option (\<lambda>n. n\<lparr>description := []\<rparr>) (node e)\<rparr>"

definition without_descriptions :: "QueryResult \<Rightarrow> QueryResult" where
  "without_descriptions r =
     r\<lparr>data :=
         map_option
           (\<lambda>d. d\<lparr>products :=
                   map_option (\<lambda>p. p\<lparr>edges := map blank_description (edges p)\<rparr>) (products d)\<rparr>)
           (data r)\<rparr>"

section \<open>Example inputs\<close>

definition example_edges :: "Edge list" where
  "example_edges =
     [\<lparr>node = Some \<lparr>id' = ''UHJvZHVjdDo3Mg=='', name = ''Apple Juice'', description = ''Fell straight from the tree'',
                      thumbnail = Some \<lparr>url = ''https://demo.saleor.io/media/juice.png''\<rparr>\<rparr>\<rparr>,
      \<lparr>node = Some \<lparr>id' = ''UHJvZHVjdDo3NA=='', name = ''Banana Juice'', description = ''Build your protein'',
                      thumbnail = Some \<lparr>url = ''https://demo.saleor.io/media/banana.png''\<rparr>\<rparr>\<rparr>,
      \<lparr>node = Some \<lparr>id' = ''UHJvZHVjdDo3OQ=='', name = ''Bean Juice'', description = ''Bean there, drunk that'',
                      thumbnail = Some \<lparr>url = ''https://demo.saleor.io/media/bean.png''\<rparr>\<rparr>\<rparr>]"

definition pending_result :: QueryResult where
  "pending_result = \<lparr>loading = True, data = None, error = None\<rparr>"

definition resolved_result :: QueryResult where
  "resolved_result =
     \<lparr>loading = False, data = Some \<lparr>products = Some \<lparr>edges = example_edges\<rparr>\<rparr>, error = None\<rparr>"

definition failed_result :: QueryResult where
  "failed_result = \<lparr>loading = False, data = None, error = Some ''Network request failed''\<rparr>"

definition constant_env :: "QueryResult \<Rightarrow> Env" where
  "constant_env r = \<lparr>respond = (\<lambda>u q. r), issued = []\<rparr>"

text \<open>The example edges with other descriptions, and nothing else changed.\<close>

definition example_edges_redescribed :: "Edge list" where
  "example_edges_redescribed =
     [\<lparr>node = Some \<lparr>id' = ''UHJvZHVjdDo3Mg=='', name = ''Apple Juice'', description = ''Sold out'',
                      thumbnail = Some \<lparr>url = ''https://demo.saleor.io/media/juice.png''\<rparr>\<rparr>\<rparr>,
      \<lparr>node = Some \<lparr>id' = ''UHJvZHVjdDo3NA=='', name = ''Banana Juice'', description = [],
                      thumbnail = Some \<lparr>url = ''https://demo.saleor.io/media/banana.png''\<rparr>\<rparr>\<rparr>,
      \<lparr>node = Some \<lparr>id' = ''UHJvZHVjdDo3OQ=='', name = ''Bean Juice'', description = ''New recipe'',
                      thumbnail = Some \<lparr>url = ''https://demo.saleor.io/media/bean.png''\<rparr>\<rparr>\<rparr>]"

definition redescribed_result :: QueryResult where
  "redescribed_result =
     \<lparr>loading = False, data = Some \<lparr>products = Some \<lparr>edges = example_edges_redescribed\<rparr>\<rparr>,
      error = None\<rparr>"

text \<open>A resolved result whose only product has no thumbnail.\<close>

definition no_thumbnail_edges :: "Edge list" where
  "no_thumbnail_edges =
     [\<lparr>node = Some \<lparr>id' = ''UHJvZHVjdDo4MA=='', name = ''Carrot Juice'', description = ''Bunny approved'',
                      thumbnail = None\<rparr>\<rparr>]"

definition no_thumbnail_result :: QueryResult where
  "no_thumbnail_result =
     \<lparr>loading = False, data = Some \<lparr>products = Some \<lparr>edges = no_thumbnail_edges\<rparr>\<rparr>,
      error = None\<rparr>"

text \<open>
  An environment that answers the query of Products.tsx at the endpoint of App.tsx as
  pending and everything else as failed, with an earlier request on record.
\<close>

definition other_env :: Env where
  "other_env =
     \<lparr>respond = (\<lambda>u q. if u = ''https://demo.saleor.io/graphql/'' \<and> q = GET_PRODUCTS
                        then pending_result else failed_result),
      issued = [(''https://example.org/graphql/'', Query ''getShop'' [Selection ''shop'' [] [Selection ''name'' [] []]])]\<rparr>"

section \<open>Properties of the list component model\<close>

declare rows_of.simps [simp del]

lemma concat_rows_of: "concat (rows_of n xs) = xs"
proof (induction n xs rule: rows_of.induct)
  case (1 n xs)
  show ?case
  proof (cases "xs = []")
    case True
    then show ?thesis by (simp add: rows_of.simps)
  next
    case False
    with 1 have "concat (rows_of n (drop (max 1 n) xs)) = drop (max 1 n) xs" by simp
    with False show ?thesis by (subst rows_of.simps) simp
  qed
qed

lemma rows_of_row_length:
  "row \<in> set (rows_of n xs) \<Longrightarrow> 1 \<le> length row \<and> length row \<le> max 1 n"
proof (induction n xs rule: rows_of.induct)
  case (1 n xs)
  show ?case
  proof (cases "xs = []")
    case True
    with "1.prems" show ?thesis by (simp add: rows_of.simps)
  next
    case False
    from "1.prems" False
    have "row = take (max 1 n) xs \<or> row \<in> set (rows_of n (drop (max 1 n) xs))"
      by (subst (asm) rows_of.simps) simp
    then show ?thesis
    proof
      assume "row = take (max 1 n) xs"
      with False show ?thesis by (cases xs) auto
    next
      assume "row \<in> set (rows_of n (drop (max 1 n) xs))"
      with 1 False show ?thesis by simp
    qed
  qed
qed

lemma length_rows_of_two_aux: "n = 2 \<Longrightarrow> length (rows_of n xs) = (length xs + 1) div 2"
proof (induction n xs rule: rows_of.induct)
  case (1 n xs)
  have m: "max 1 n = 2" using "1.prems" by simp
  show ?case
  proof (cases "xs = []")
    case True
    then show ?thesis by (simp add: rows_of.simps)
  next
    case False
    from "1.IH" [OF False "1.prems"]
    have ih: "length (rows_of n (drop 2 xs)) = (length (drop 2 xs) + 1) div 2"
      by (simp only: m)
    from False have "length (rows_of n xs) = Suc (length (rows_of n (drop 2 xs)))"
      by (subst rows_of.simps) (simp only: m if_False list.size length_Cons)
    moreover from False have "0 < length xs" by simp
    ultimately show ?thesis unfolding ih length_drop by arith
  qed
qed

lemma length_rows_of_two: "length (rows_of 2 xs) = (length xs + 1) div 2"
  by (rule length_rows_of_two_aux) simp

lemma render_cells_Inr:
  "render_cells r k i xs = Inr cs \<Longrightarrow>
     length cs = length xs \<and>
     (\<forall>j<length xs. k (xs ! j) = Inr (fst (cs ! j)) \<and>
                     r \<lparr>item = xs ! j, index = i + j\<rparr> = Inr (snd (cs ! j)))"
proof (induction xs arbitrary: i cs)
  case Nil
  then show ?case by simp
next
  case (Cons x xs)
  from Cons.prems obtain key v cs' where
    k: "k x = Inr key" and r: "r \<lparr>item = x, index = i\<rparr> = Inr v" and
    rest: "render_cells r k (Suc i) xs = Inr cs'" and cs: "cs = (key, v) # cs'"
    by (auto split: sum.splits)
  from Cons.IH [OF rest] have
    len: "length cs' = length xs" and
    ih: "\<forall>j<length xs. k (xs ! j) = Inr (fst (cs' ! j)) \<and>
                     r \<lparr>item = xs ! j, index = Suc i + j\<rparr> = Inr (snd (cs' ! j))"
    by simp_all
  show ?case
  proof (intro conjI allI impI)
    show "length cs = length (x # xs)" using len cs by simp
  next
    fix j assume "j < length (x # xs)"
    then show "k ((x # xs) ! j) = Inr (fst (cs ! j))"
      using k ih cs by (cases j) simp_all
  next
    fix j assume "j < length (x # xs)"
    then show "r \<lparr>item = (x # xs) ! j, index = i + j\<rparr> = Inr (snd (cs ! j))"
      using r ih cs by (cases j) simp_all
  qed
qed

lemma renderItem_renderable:
  "renderable e \<Longrightarrow> \<exists>v. renderItem \<lparr>item = e, index = i\<rparr> = Inr v"
  by (auto simp: renderable_def renderItem_def split: option.splits)

lemma keyExtractor_renderable: "renderable e \<Longrightarrow> \<exists>k. keyExtractor e = Inr k"
  by (auto simp: renderable_def keyExtractor_def split: option.splits)

lemma renderItem_not_renderable:
  "\<not> renderable e \<Longrightarrow> keyExtractor e = Inl TypeError \<or> renderItem \<lparr>item = e, index = i\<rparr> = Inl TypeError"
  by (auto simp: renderable_def renderItem_def keyExtractor_def split: option.splits)

lemma render_cells_renderable:
  "list_all renderable es \<Longrightarrow> \<exists>cs. render_cells renderItem keyExtractor i es = Inr cs"
proof (induction es arbitrary: i)
  case Nil
  then show ?case by simp
next
  case (Cons e es)
  from Cons.prems have e: "renderable e" and es: "list_all renderable es" by simp_all
  from keyExtractor_renderable [OF e] obtain k where k: "keyExtractor e = Inr k" ..
  from renderItem_renderable [OF e] obtain v where v: "renderItem \<lparr>item = e, index = i\<rparr> = Inr v" ..
  from Cons.IH [OF es] obtain cs where "render_cells renderItem keyExtractor (Suc i) es = Inr cs" ..
  with k v show ?case by simp
qed

lemma error_is_TypeError: "(e::error) = TypeError"
  by (cases e) simp

lemma render_cells_not_renderable:
  "\<not> list_all renderable es \<Longrightarrow> render_cells renderItem keyExtractor i es = Inl TypeError"
proof (induction es arbitrary: i)
  case Nil
  then show ?case by simp
next
  case (Cons e es)
  show ?case
  proof (cases "renderable e")
    case True
    with Cons.prems have "\<not> list_all renderable es" by simp
    from Cons.IH [OF this] show ?thesis
      by (simp split: sum.splits add: error_is_TypeError)
  next
    case False
    from renderItem_not_renderable [OF this, of i] show ?thesis
      by (auto split: sum.splits simp: error_is_TypeError)
  qed
qed

lemma Products_issued: "snd (Products ctx env) = env\<lparr>issued := issued env @ [(uri ctx, GET_PRODUCTS)]\<rparr>"
  by (simp add: Products_def useQuery_def)

lemma Products_pending:
  "loading (respond env (uri ctx) GET_PRODUCTS) \<Longrightarrow>
     fst (Products ctx env) = Inr (SafeAreaView Products_styles_container [Text [] ''Loading''])"
  by (simp add: Products_def useQuery_def)

lemma Products_no_data:
  "\<not> loading (respond env (uri ctx) GET_PRODUCTS) \<Longrightarrow>
   data (respond env (uri ctx) GET_PRODUCTS) = None \<Longrightarrow>
     fst (Products ctx env) = Inl TypeError"
  by (simp add: Products_def useQuery_def)

lemma Products_no_products:
  "\<not> loading (respond env (uri ctx) GET_PRODUCTS) \<Longrightarrow>
   data (respond env (uri ctx) GET_PRODUCTS) = Some d \<Longrightarrow> products d = None \<Longrightarrow>
     fst (Products ctx env) = Inl TypeError"
  by (simp add: Products_def useQuery_def)

lemma Products_edges:
  "\<not> loading (respond env (uri ctx) GET_PRODUCTS) \<Longrightarrow>
   data (respond env (uri ctx) GET_PRODUCTS) = Some d \<Longrightarrow> products d = Some p \<Longrightarrow>
     fst (Products ctx env) =
       (case render_cells renderItem keyExtractor 0 (edges p) of
          Inl e \<Rightarrow> Inl e
        | Inr cs \<Rightarrow>
            Inr (SafeAreaView Products_styles_container
                   [FlatListView (Text styles_title ''Products'') 2 (rows_of 2 cs)]))"
  by (simp add: Products_def useQuery_def FlatList_def ListHeaderComponent_def split: sum.splits)


lemma renderItem_Some:
  "node e = Some n \<Longrightarrow> thumbnail n = Some t \<Longrightarrow>
     renderItem \<lparr>item = e, index = i\<rparr> =
       Inr (View styles_product
              [Image' (url t) [(''height'', Num 150), (''width'', Num 150)],
               Text [(''fontSize'', Num 16), (''fontWeight'', Str ''bold'')] (name n),
               Text [] ''$4.50''])"
  by (simp add: renderItem_def)

lemma renderable_Some: "renderable e \<Longrightarrow> \<exists>n t. node e = Some n \<and> thumbnail n = Some t"
  by (auto simp: renderable_def split: option.splits)

lemma Products_resolved_cells:
  assumes "\<not> loading (respond env (uri ctx) GET_PRODUCTS)"
    and "data (respond env (uri ctx) GET_PRODUCTS) = Some d"
    and "products d = Some p"
    and "list_all renderable (edges p)"
  shows "\<exists>cs. fst (Products ctx env) =
               Inr (SafeAreaView Products_styles_container
                      [FlatListView (Text styles_title ''Products'') 2 (rows_of 2 cs)]) \<and>
              render_cells renderItem keyExtractor 0 (edges p) = Inr cs"
proof -
  from render_cells_renderable [OF assms(4), of 0]
  obtain cs where cs: "render_cells renderItem keyExtractor 0 (edges p) = Inr cs" ..
  with Products_edges [OF assms(1-3)] show ?thesis by simp
qed

section \<open>The resolved grid\<close>

text \<open>
  C1, as stated, fails: a resolved, error-free result with one edge record whose product
  has no thumbnail gives no grid and no cell; \<^verbatim>\<open>item.node.thumbnail.url\<close> throws.
\<close>

theorem Products_resolved_grid_counterexample:
  "\<not> loading no_thumbnail_result \<and>
   error no_thumbnail_result = None \<and>
   data no_thumbnail_result = Some \<lparr>products = Some \<lparr>edges = no_thumbnail_edges\<rparr>\<rparr> \<and>
   length no_thumbnail_edges = 1 \<and>
   fst (Products client (constant_env no_thumbnail_result)) = Inl TypeError"
  by (simp add: Products_def useQuery_def constant_env_def no_thumbnail_result_def
      no_thumbnail_edges_def FlatList_def ListHeaderComponent_def keyExtractor_def
      renderItem_def)

text \<open>
  C1, amended. For a resolved result with N edge records (N at most 10, the page size),
  every one with a node and a non-null thumbnail, the Products component renders a grid
  with exactly N item cells; the i-th cell shows the name of the i-th record and the
  literal price \<^verbatim>\<open>$4.50\<close>; the grid has two columns: every row holds one or two
  cells and there are (N + 1) div 2 rows.
\<close>

theorem Products_resolved_grid:
  assumes "respond env (uri ctx) GET_PRODUCTS = r"
    and "\<not> loading r" and "data r = Some d" and "products d = Some p"
    and "list_all renderable (edges p)"
    and "length (edges p) \<le> 10"
  shows "\<exists>h rows.
           fst (Products ctx env) =
             Inr (SafeAreaView Products_styles_container [FlatListView h 2 rows]) \<and>
           length (concat rows) = length (edges p) \<and>
           (\<forall>i<length (edges p). \<exists>n.
               node (edges p ! i) = Some n \<and>
               view_texts (snd (concat rows ! i)) = [name n, ''$4.50'']) \<and>
           (\<forall>row\<in>set rows. 1 \<le> length row \<and> length row \<le> 2) \<and>
           length rows = (length (edges p) + 1) div 2"
proof -
  from assms(1-5) Products_resolved_cells [of env ctx d p]
  obtain cs where
    out: "fst (Products ctx env) =
            Inr (SafeAreaView Products_styles_container
                   [FlatListView (Text styles_title ''Products'') 2 (rows_of 2 cs)])" and
    cs: "render_cells renderItem keyExtractor 0 (edges p) = Inr cs"
    by auto
  from render_cells_Inr [OF cs] have
    len: "length cs = length (edges p)" and
    cell: "\<And>j. j < length (edges p) \<Longrightarrow>
             renderItem \<lparr>item = edges p ! j, index = 0 + j\<rparr> = Inr (snd (cs ! j))"
    by simp_all
  have texts: "\<exists>n. node (edges p ! i) = Some n \<and> view_texts (snd (cs ! i)) = [name n, ''$4.50'']"
    if i: "i < length (edges p)" for i
  proof -
    from assms(5) i have "renderable (edges p ! i)" by (simp add: list_all_length)
    from renderable_Some [OF this] obtain n t where
      n: "node (edges p ! i) = Some n" and t: "thumbnail n = Some t" by auto
    from renderItem_Some [OF n t, of "0 + i"] cell [OF i]
    have "snd (cs ! i) =
            View styles_product
              [Image' (url t) [(''height'', Num 150), (''width'', Num 150)],
               Text [(''fontSize'', Num 16), (''fontWeight'', Str ''bold'')] (name n),
               Text [] ''$4.50'']"
      by simp
    with n show ?thesis by simp
  qed
  have rows: "\<forall>row\<in>set (rows_of 2 cs). 1 \<le> length row \<and> length row \<le> 2"
  proof
    fix row assume "row \<in> set (rows_of 2 cs)"
    from rows_of_row_length [OF this] show "1 \<le> length row \<and> length row \<le> 2" by simp
  qed
  show ?thesis
    using out len texts rows by (simp add: concat_rows_of length_rows_of_two)
qed

theorem Products_resolved_grid_witness:
  "\<not> loading resolved_result \<and> list_all renderable example_edges \<and> length example_edges \<le> 10 \<and>
   (\<exists>h rows.
      fst (Products client (constant_env resolved_result)) =
        Inr (SafeAreaView Products_styles_container [FlatListView h 2 rows]) \<and>
      length (concat rows) = 3 \<and> length rows = 2)"
proof -
  have a: "respond (constant_env resolved_result) (uri client) GET_PRODUCTS = resolved_result"
    by (simp add: constant_env_def)
  have b: "\<not> loading resolved_result"
    by (simp add: resolved_result_def)
  have c: "data resolved_result = Some \<lparr>products = Some \<lparr>edges = example_edges\<rparr>\<rparr>"
    by (simp add: resolved_result_def)
  have d: "products \<lparr>products = Some \<lparr>edges = example_edges\<rparr>\<rparr> = Some \<lparr>edges = example_edges\<rparr>"
    by simp
  have e: "list_all renderable (edges \<lparr>edges = example_edges\<rparr>)"
    by (simp add: example_edges_def renderable_def)
  have f: "length (edges \<lparr>edges = example_edges\<rparr>) \<le> 10"
    by (simp add: example_edges_def)
  have g: "length example_edges = 3"
    by (simp add: example_edges_def)
  from Products_resolved_grid [OF a b c d e f] b e f g show ?thesis
    by auto
qed


section \<open>The loading state\<close>

text \<open>
  C2. While the query result is pending (\<^verbatim>\<open>loading\<close> is true), the Products component
  renders the literal loading text \<^verbatim>\<open>Loading\<close> and nothing else: no grid, no item
  cell, no image.
\<close>

theorem Products_loading_view:
  assumes "loading (respond env (uri ctx) GET_PRODUCTS)"
  shows "\<exists>v. fst (Products ctx env) = Inr v \<and>
             v = SafeAreaView Products_styles_container [Text [] ''Loading''] \<and>
             view_texts v = [''Loading''] \<and> grids v = [] \<and> view_images v = []"
  using Products_pending [OF assms] by simp

theorem Products_loading_view_witness:
  "loading pending_result \<and>
   fst (Products client (constant_env pending_result)) =
     Inr (SafeAreaView Products_styles_container [Text [] ''Loading''])"
proof -
  have a: "loading (respond (constant_env pending_result) (uri client) GET_PRODUCTS)"
    by (simp add: constant_env_def pending_result_def)
  have b: "loading pending_result"
    by (simp add: pending_result_def)
  from Products_loading_view [OF a] b show ?thesis by auto
qed

section \<open>A failed query\<close>

text \<open>
  C3, as stated, fails: a failed query that the hook reports with \<^verbatim>\<open>loading\<close> false
  and no data does not leave the loading text on screen; the render throws.
\<close>

theorem Products_failed_counterexample:
  "error failed_result \<noteq> None \<and>
   fst (Products client (constant_env failed_result)) = Inl TypeError \<and>
   fst (Products client (constant_env failed_result)) \<noteq>
     Inr (SafeAreaView Products_styles_container [Text [] ''Loading''])"
  by (simp add: Products_def useQuery_def constant_env_def failed_result_def)

text \<open>
  C3, amended. When the query fails, no error state is rendered: the Products component
  never reads the \<^verbatim>\<open>error\<close> field, so two results with the same
  \<^verbatim>\<open>loading\<close> and \<^verbatim>\<open>data\<close> render alike whatever their errors, and
  the output is the loading-state output if and only if \<^verbatim>\<open>loading\<close> is true.
\<close>

theorem Products_ignores_error:
  assumes "respond env1 (uri ctx) GET_PRODUCTS = r1"
    and "respond env2 (uri ctx) GET_PRODUCTS = r2"
    and "loading r1 = loading r2" and "data r1 = data r2"
  shows "fst (Products ctx env1) = fst (Products ctx env2) \<and>
         (fst (Products ctx env1) =
            Inr (SafeAreaView Products_styles_container [Text [] ''Loading'']) \<longleftrightarrow>
          loading r1)"
  using assms
  by (auto simp: Products_def useQuery_def FlatList_def ListHeaderComponent_def
      split: option.splits sum.splits)

theorem Products_ignores_error_witness:
  "error (pending_result\<lparr>error := Some ''Network request failed''\<rparr>) \<noteq> None \<and>
   fst (Products client (constant_env (pending_result\<lparr>error := Some ''Network request failed''\<rparr>))) =
     fst (Products client (constant_env pending_result)) \<and>
   fst (Products client (constant_env (pending_result\<lparr>error := Some ''Network request failed''\<rparr>))) =
     Inr (SafeAreaView Products_styles_container [Text [] ''Loading''])"
proof -
  have a: "respond (constant_env (pending_result\<lparr>error := Some ''Network request failed''\<rparr>)) (uri client)
             GET_PRODUCTS = pending_result\<lparr>error := Some ''Network request failed''\<rparr>"
    by (simp add: constant_env_def)
  have b: "respond (constant_env pending_result) (uri client) GET_PRODUCTS = pending_result"
    by (simp add: constant_env_def)
  have c: "loading (pending_result\<lparr>error := Some ''Network request failed''\<rparr>) = loading pending_result"
    by simp
  have d: "data (pending_result\<lparr>error := Some ''Network request failed''\<rparr>) = data pending_result"
    by simp
  have e: "loading (pending_result\<lparr>error := Some ''Network request failed''\<rparr>)"
    by (simp add: pending_result_def)
  from Products_ignores_error [OF a b c d] e
  have x: "fst (Products client (constant_env (pending_result\<lparr>error := Some ''Network request failed''\<rparr>))) =
             fst (Products client (constant_env pending_result))"
    and y: "fst (Products client (constant_env (pending_result\<lparr>error := Some ''Network request failed''\<rparr>))) =
             Inr (SafeAreaView Products_styles_container [Text [] ''Loading''])"
    by blast+
  show ?thesis by (intro conjI x y) simp
qed

section \<open>Keys\<close>

lemma keyExtractor_Some: "node e = Some n \<Longrightarrow> keyExtractor e = Inr (id' n)"
  by (simp add: keyExtractor_def)

text \<open>
  C4. For a resolved result, the key of every rendered cell is the identifier of the
  product of the edge it renders (what \<^verbatim>\<open>keyExtractor\<close> returns for that edge), and
  when the identifiers of the products are pairwise distinct, so are the keys of the
  cells.
\<close>

theorem Products_keys:
  assumes "respond env (uri ctx) GET_PRODUCTS = r"
    and "\<not> loading r" and "data r = Some d" and "products d = Some p"
    and "list_all renderable (edges p)"
  shows "\<exists>h rows.
           fst (Products ctx env) =
             Inr (SafeAreaView Products_styles_container [FlatListView h 2 rows]) \<and>
           map (\<lambda>c. Some (fst c)) (concat rows) = map (\<lambda>e. map_option id' (node e)) (edges p) \<and>
           map (\<lambda>c. Inr (fst c)) (concat rows) = map keyExtractor (edges p) \<and>
           (distinct (map (\<lambda>e. map_option id' (node e)) (edges p)) \<longrightarrow>
              distinct (map fst (concat rows)))"
proof -
  from assms Products_resolved_cells [of env ctx d p]
  obtain cs where
    out: "fst (Products ctx env) =
            Inr (SafeAreaView Products_styles_container
                   [FlatListView (Text styles_title ''Products'') 2 (rows_of 2 cs)])" and
    cs: "render_cells renderItem keyExtractor 0 (edges p) = Inr cs"
    by auto
  from render_cells_Inr [OF cs] have
    len: "length cs = length (edges p)" and
    key: "\<And>j. j < length (edges p) \<Longrightarrow> keyExtractor (edges p ! j) = Inr (fst (cs ! j))"
    by simp_all
  have keys: "map (\<lambda>c. Inr (fst c)) cs = map keyExtractor (edges p)"
    using len key by (simp add: list_eq_iff_nth_eq)
  have ids: "map (\<lambda>c. Some (fst c)) cs = map (\<lambda>e. map_option id' (node e)) (edges p)"
  proof (rule nth_equalityI)
    show "length (map (\<lambda>c. Some (fst c)) cs) = length (map (\<lambda>e. map_option id' (node e)) (edges p))"
      using len by simp
  next
    fix i assume "i < length (map (\<lambda>c. Some (fst c)) cs)"
    then have i: "i < length (edges p)" using len by simp
    from assms(5) i have "renderable (edges p ! i)" by (simp add: list_all_length)
    from renderable_Some [OF this] obtain n where n: "node (edges p ! i) = Some n" by auto
    from keyExtractor_Some [OF n] key [OF i] have "fst (cs ! i) = id' n" by simp
    with n i len
    show "map (\<lambda>c. Some (fst c)) cs ! i = map (\<lambda>e. map_option id' (node e)) (edges p) ! i"
      by simp
  qed
  have "distinct (map fst cs)" if "distinct (map (\<lambda>e. map_option id' (node e)) (edges p))"
  proof -
    from that ids have "distinct (map (\<lambda>c. Some (fst c)) cs)" by simp
    then show ?thesis by (auto simp: distinct_map inj_on_def)
  qed
  with out keys ids show ?thesis by (simp add: concat_rows_of)
qed

theorem Products_keys_witness:
  "\<not> loading resolved_result \<and> list_all renderable example_edges \<and>
   (\<exists>h rows.
      fst (Products client (constant_env resolved_result)) =
        Inr (SafeAreaView Products_styles_container [FlatListView h 2 rows]) \<and>
      map fst (concat rows) = [''UHJvZHVjdDo3Mg=='', ''UHJvZHVjdDo3NA=='', ''UHJvZHVjdDo3OQ==''] \<and>
      distinct (map fst (concat rows)))"
proof -
  have a: "respond (constant_env resolved_result) (uri client) GET_PRODUCTS = resolved_result"
    by (simp add: constant_env_def)
  have b: "\<not> loading resolved_result"
    by (simp add: resolved_result_def)
  have c: "data resolved_result = Some \<lparr>products = Some \<lparr>edges = example_edges\<rparr>\<rparr>"
    by (simp add: resolved_result_def)
  have d: "products \<lparr>products = Some \<lparr>edges = example_edges\<rparr>\<rparr> = Some \<lparr>edges = example_edges\<rparr>"
    by simp
  have e: "list_all renderable (edges \<lparr>edges = example_edges\<rparr>)"
    by (simp add: example_edges_def renderable_def)
  have f: "map (\<lambda>e. map_option id' (node e)) example_edges =
             [Some ''UHJvZHVjdDo3Mg=='', Some ''UHJvZHVjdDo3NA=='', Some ''UHJvZHVjdDo3OQ=='']"
    by (simp add: example_edges_def)
  have g: "distinct (map (\<lambda>e. map_option id' (node e)) example_edges)"
    unfolding f by simp
  from Products_keys [OF a b c d e] obtain h rows where
    out: "fst (Products client (constant_env resolved_result)) =
            Inr (SafeAreaView Products_styles_container [FlatListView h 2 rows])" and
    ids: "map (\<lambda>c. Some (fst c)) (concat rows) = map (\<lambda>e. map_option id' (node e)) example_edges" and
    dist: "distinct (map (\<lambda>e. map_option id' (node e)) example_edges) \<longrightarrow>
             distinct (map fst (concat rows))"
    by auto
  from ids f have "map Some (map fst (concat rows)) =
      map Some [''UHJvZHVjdDo3Mg=='', ''UHJvZHVjdDo3NA=='', ''UHJvZHVjdDo3OQ=='']"
    by (simp add: comp_def)
  then have "map fst (concat rows) = [''UHJvZHVjdDo3Mg=='', ''UHJvZHVjdDo3NA=='', ''UHJvZHVjdDo3OQ=='']"
    by (simp only: inj_map_eq_map [OF inj_Some])
  with out dist g b e show ?thesis by auto
qed

section \<open>The query and the endpoint\<close>

text \<open>
  C5. Every render of the Products component, whatever the ambient client and the
  environment, requests exactly the module-level document \<^verbatim>\<open>GET_PRODUCTS\<close>, so any
  two renders request the same document; its arguments are the page size 10 and the
  channel \<^verbatim>\<open>default-channel\<close>.
\<close>

theorem Products_query_constant:
  "requests_of env1 (snd (Products ctx1 env1)) = [(uri ctx1, GET_PRODUCTS)] \<and>
   map snd (requests_of env1 (snd (Products ctx1 env1))) =
     map snd (requests_of env2 (snd (Products ctx2 env2))) \<and>
   document_arguments GET_PRODUCTS =
     [([''products''], ''first'', IntValue 10),
      ([''products''], ''channel'', StringValue ''default-channel'')]"
  by (simp add: Products_issued requests_of_def document_arguments_def GET_PRODUCTS_def)


section \<open>The header of the App\<close>

lemma App_output:
  "fst (App env) =
     (case fst (Products client env) of
        Inl e \<Rightarrow> Inl e
      | Inr products_view \<Rightarrow>
          Inr (View App_styles_container
                 [StatusBar ''auto'',
                  View styles_header
                    [SafeAreaView App_styles_container
                       [Text [(''color'', Str ''#fff''), (''fontSize'', Num 18)]
                          ''React Native Demo Home Page'']],
                  products_view]))"
  by (simp add: App_def ApolloProvider_def split: prod.splits)

lemma App_issued: "snd (App env) = snd (Products client env)"
  by (simp add: App_def ApolloProvider_def split: prod.splits)

text \<open>
  C6. The header of the App component is the same in every render: for any two
  environments in which the App renders (the query pending in one, resolved in the
  other), the header region is the same view, with the text
  \<^verbatim>\<open>React Native Demo Home Page\<close> on a blue background; only the region of the
  Products component differs.
\<close>

theorem App_header_fixed:
  assumes "fst (App env1) = Inr v1" and "fst (App env2) = Inr v2"
  shows "\<exists>h p1 p2.
           v1 = View App_styles_container [StatusBar ''auto'', h, p1] \<and>
           v2 = View App_styles_container [StatusBar ''auto'', h, p2] \<and>
           fst (Products client env1) = Inr p1 \<and> fst (Products client env2) = Inr p2 \<and>
           h = View styles_header
                 [SafeAreaView App_styles_container
                    [Text [(''color'', Str ''#fff''), (''fontSize'', Num 18)]
                       ''React Native Demo Home Page'']] \<and>
           view_texts h = [''React Native Demo Home Page''] \<and>
           map_of styles_header ''backgroundColor'' = Some (Str ''blue'')"
  using assms by (auto simp: App_output styles_header_def split: sum.splits)

theorem App_header_fixed_witness:
  "\<exists>h p1 p2.
     fst (App (constant_env pending_result)) =
       Inr (View App_styles_container [StatusBar ''auto'', h, p1]) \<and>
     fst (App (constant_env resolved_result)) =
       Inr (View App_styles_container [StatusBar ''auto'', h, p2]) \<and>
     p1 = SafeAreaView Products_styles_container [Text [] ''Loading''] \<and>
     grids p2 \<noteq> [] \<and>
     view_texts h = [''React Native Demo Home Page'']"
proof -
  have "loading (respond (constant_env pending_result) (uri client) GET_PRODUCTS)"
    by (simp add: constant_env_def pending_result_def)
  from Products_pending [OF this]
  have p1: "fst (Products client (constant_env pending_result)) =
              Inr (SafeAreaView Products_styles_container [Text [] ''Loading''])" .
  have "\<not> loading (respond (constant_env resolved_result) (uri client) GET_PRODUCTS)"
    and "data (respond (constant_env resolved_result) (uri client) GET_PRODUCTS) =
           Some \<lparr>products = Some \<lparr>edges = example_edges\<rparr>\<rparr>"
    and "products \<lparr>products = Some \<lparr>edges = example_edges\<rparr>\<rparr> = Some \<lparr>edges = example_edges\<rparr>"
    and "list_all renderable (edges \<lparr>edges = example_edges\<rparr>)"
    by (simp_all add: constant_env_def resolved_result_def example_edges_def renderable_def)
  from Products_resolved_cells [OF this] obtain cs where
    p2: "fst (Products client (constant_env resolved_result)) =
           Inr (SafeAreaView Products_styles_container
                  [FlatListView (Text styles_title ''Products'') 2 (rows_of 2 cs)])"
    by auto
  from p1 obtain v1 where v1: "fst (App (constant_env pending_result)) = Inr v1"
    by (simp add: App_output)
  from p2 obtain v2 where v2: "fst (App (constant_env resolved_result)) = Inr v2"
    by (simp add: App_output)
  from App_header_fixed [OF v1 v2] v1 v2 p1 p2 show ?thesis
    by auto
qed

text \<open>
  C7. The client is bound to the endpoint \<^verbatim>\<open>https://demo.saleor.io/graphql/\<close> with a
  fresh, empty cache; a render of the App requests one operation, the query
  \<^verbatim>\<open>GET_PRODUCTS\<close> at that endpoint, which selects id, name, description and
  thumbnail.url of the nodes of the first 10 edges of one hardcoded channel; and the
  output depends on the environment through the answer to that one request only.
\<close>

theorem App_single_query:
  "uri client = ''https://demo.saleor.io/graphql/'' \<and>
   take 8 (uri client) = ''https://'' \<and>
   cache client = [] \<and>
   requests_of env (snd (App env)) = [(''https://demo.saleor.io/graphql/'', GET_PRODUCTS)] \<and>
   document_leaves GET_PRODUCTS =
     [[''products'', ''edges'', ''node'', ''id''],
      [''products'', ''edges'', ''node'', ''name''],
      [''products'', ''edges'', ''node'', ''description''],
      [''products'', ''edges'', ''node'', ''thumbnail'', ''url'']] \<and>
   document_arguments GET_PRODUCTS =
     [([''products''], ''first'', IntValue 10),
      ([''products''], ''channel'', StringValue ''default-channel'')] \<and>
   (respond env ''https://demo.saleor.io/graphql/'' GET_PRODUCTS =
      respond env' ''https://demo.saleor.io/graphql/'' GET_PRODUCTS \<longrightarrow>
    fst (App env) = fst (App env'))"
proof (intro conjI impI)
  show "uri client = ''https://demo.saleor.io/graphql/''" by (simp add: client_def)
  show "take 8 (uri client) = ''https://''" by (simp add: client_def)
  show "cache client = []" by (simp add: client_def new_InMemoryCache_def)
  show "requests_of env (snd (App env)) = [(''https://demo.saleor.io/graphql/'', GET_PRODUCTS)]"
    by (simp add: App_issued Products_issued requests_of_def client_def)
  show "document_leaves GET_PRODUCTS =
     [[''products'', ''edges'', ''node'', ''id''],
      [''products'', ''edges'', ''node'', ''name''],
      [''products'', ''edges'', ''node'', ''description''],
      [''products'', ''edges'', ''node'', ''thumbnail'', ''url'']]"
    by (simp add: document_leaves_def GET_PRODUCTS_def)
  show "document_arguments GET_PRODUCTS =
     [([''products''], ''first'', IntValue 10),
      ([''products''], ''channel'', StringValue ''default-channel'')]"
    by (simp add: document_arguments_def GET_PRODUCTS_def)
next
  assume "respond env ''https://demo.saleor.io/graphql/'' GET_PRODUCTS =
            respond env' ''https://demo.saleor.io/graphql/'' GET_PRODUCTS"
  then have "fst (Products client env) = fst (Products client env')"
    by (simp add: Products_def useQuery_def client_def)
  then show "fst (App env) = fst (App env')" by (simp add: App_output)
qed

theorem App_single_query_witness:
  "respond other_env ''https://demo.saleor.io/graphql/'' GET_PRODUCTS =
     respond (constant_env pending_result) ''https://demo.saleor.io/graphql/'' GET_PRODUCTS \<and>
   respond other_env ''https://example.org/graphql/'' GET_PRODUCTS \<noteq>
     respond (constant_env pending_result) ''https://example.org/graphql/'' GET_PRODUCTS \<and>
   fst (App other_env) = fst (App (constant_env pending_result)) \<and>
   issued (snd (App (constant_env pending_result))) =
     [(''https://demo.saleor.io/graphql/'', GET_PRODUCTS)]"
proof -
  have a: "respond other_env ''https://demo.saleor.io/graphql/'' GET_PRODUCTS =
     respond (constant_env pending_result) ''https://demo.saleor.io/graphql/'' GET_PRODUCTS"
    by (simp add: other_env_def constant_env_def)
  have b: "respond other_env ''https://example.org/graphql/'' GET_PRODUCTS \<noteq>
     respond (constant_env pending_result) ''https://example.org/graphql/'' GET_PRODUCTS"
    by (simp add: other_env_def constant_env_def failed_result_def pending_result_def)
  have c: "requests_of (constant_env pending_result) (snd (App (constant_env pending_result))) =
             issued (snd (App (constant_env pending_result)))"
    by (simp add: requests_of_def constant_env_def)
  from App_single_query [of "constant_env pending_result" other_env]
       App_single_query [of other_env "constant_env pending_result"] a b c
  show ?thesis by simp
qed


section \<open>The description is never read\<close>

lemma renderItem_blank_description:
  "renderItem \<lparr>item = blank_description e, index = i\<rparr> = renderItem \<lparr>item = e, index = i\<rparr>"
  by (simp add: renderItem_def blank_description_def split: option.splits)

lemma keyExtractor_blank_description: "keyExtractor (blank_description e) = keyExtractor e"
  by (simp add: keyExtractor_def blank_description_def split: option.splits)

lemma render_cells_blank_description:
  "render_cells renderItem keyExtractor i (map blank_description es) =
     render_cells renderItem keyExtractor i es"
  by (induction es arbitrary: i)
     (simp_all add: renderItem_blank_description keyExtractor_blank_description split: sum.splits)

lemma Products_without_descriptions:
  assumes "respond env1 (uri ctx) GET_PRODUCTS = r"
    and "respond env2 (uri ctx) GET_PRODUCTS = without_descriptions r"
  shows "fst (Products ctx env1) = fst (Products ctx env2)"
proof (cases "loading r")
  case True
  with assms show ?thesis
    by (simp add: Products_def useQuery_def without_descriptions_def)
next
  case False
  show ?thesis
  proof (cases "data r")
    case None
    with False assms show ?thesis
      by (simp add: Products_def useQuery_def without_descriptions_def)
  next
    case (Some d)
    show ?thesis
    proof (cases "products d")
      case None
      with False Some assms show ?thesis
        by (simp add: Products_def useQuery_def without_descriptions_def)
    next
      case (Some p)
      with False \<open>data r = Some d\<close> assms show ?thesis
        by (simp add: Products_def useQuery_def without_descriptions_def FlatList_def
            ListHeaderComponent_def render_cells_blank_description)
    qed
  qed
qed

text \<open>
  C8. Two query results that differ only in the description values of their product
  records give the same rendered output of the Products component.
\<close>

theorem Products_description_independent:
  assumes "respond env1 (uri ctx) GET_PRODUCTS = r1"
    and "respond env2 (uri ctx) GET_PRODUCTS = r2"
    and "without_descriptions r1 = without_descriptions r2"
  shows "fst (Products ctx env1) = fst (Products ctx env2)"
proof -
  have mid: "respond (constant_env (without_descriptions r1)) (uri ctx) GET_PRODUCTS =
               without_descriptions r1"
    by (simp add: constant_env_def)
  from Products_without_descriptions [OF assms(1) mid]
  have "fst (Products ctx env1) = fst (Products ctx (constant_env (without_descriptions r1)))" .
  moreover from mid assms(3)
  have "respond (constant_env (without_descriptions r1)) (uri ctx) GET_PRODUCTS =
          without_descriptions r2"
    by simp
  from Products_without_descriptions [OF assms(2) this]
  have "fst (Products ctx env2) = fst (Products ctx (constant_env (without_descriptions r1)))" .
  ultimately show ?thesis by simp
qed

theorem Products_description_independent_witness:
  "resolved_result \<noteq> redescribed_result \<and>
   without_descriptions resolved_result = without_descriptions redescribed_result \<and>
   fst (Products client (constant_env resolved_result)) =
     fst (Products client (constant_env redescribed_result))"
proof -
  have a: "respond (constant_env resolved_result) (uri client) GET_PRODUCTS = resolved_result"
    by (simp add: constant_env_def)
  have b: "respond (constant_env redescribed_result) (uri client) GET_PRODUCTS = redescribed_result"
    by (simp add: constant_env_def)
  have c: "without_descriptions resolved_result = without_descriptions redescribed_result"
    by (simp add: without_descriptions_def resolved_result_def redescribed_result_def
        example_edges_def example_edges_redescribed_def blank_description_def)
  have d: "resolved_result \<noteq> redescribed_result"
    by (simp add: resolved_result_def redescribed_result_def
        example_edges_def example_edges_redescribed_def)
  from Products_description_independent [OF a b c] c d show ?thesis by simp
qed

section \<open>Unguarded dereferences\<close>

text \<open>
  C9. The Products component renders without an exception exactly when
  \<^verbatim>\<open>loading\<close> is true, or \<^verbatim>\<open>data\<close> and \<^verbatim>\<open>data.products\<close> are present
  and every edge has a node with a thumbnail; in every other case the unguarded
  dereference throws a TypeError (as when the query failed and \<^verbatim>\<open>data\<close> is absent).
\<close>

theorem Products_total_iff:
  assumes "respond env (uri ctx) GET_PRODUCTS = r"
  shows "((\<exists>v. fst (Products ctx env) = Inr v) \<longleftrightarrow>
            loading r \<or>
            (\<exists>d p. data r = Some d \<and> products d = Some p \<and> list_all renderable (edges p))) \<and>
         (\<not> (loading r \<or>
              (\<exists>d p. data r = Some d \<and> products d = Some p \<and> list_all renderable (edges p))) \<longrightarrow>
            fst (Products ctx env) = Inl TypeError)"
proof (cases "loading r")
  case True
  with assms Products_pending [of env ctx] show ?thesis by simp
next
  case False
  note nl = this
  show ?thesis
  proof (cases "data r")
    case None
    with nl assms Products_no_data [of env ctx] show ?thesis by simp
  next
    case (Some d)
    note d = this
    show ?thesis
    proof (cases "products d")
      case None
      with nl d assms Products_no_products [of env ctx d] show ?thesis by simp
    next
      case (Some p)
      from nl d Some assms Products_edges [of env ctx d p]
      have out: "fst (Products ctx env) =
                   (case render_cells renderItem keyExtractor 0 (edges p) of
                      Inl e \<Rightarrow> Inl e
                    | Inr cs \<Rightarrow>
                        Inr (SafeAreaView Products_styles_container
                               [FlatListView (Text styles_title ''Products'') 2 (rows_of 2 cs)]))"
        by simp
      show ?thesis
      proof (cases "list_all renderable (edges p)")
        case True
        from render_cells_renderable [OF True, of 0] obtain cs where
          "render_cells renderItem keyExtractor 0 (edges p) = Inr cs" ..
        with out True nl d Some show ?thesis by simp
      next
        case False
        from render_cells_not_renderable [OF False, of 0] out
        have "fst (Products ctx env) = Inl TypeError" by simp
        with False nl d Some show ?thesis by simp
      qed
    qed
  qed
qed

theorem Products_total_iff_witness:
  "\<not> loading failed_result \<and> data failed_result = None \<and>
   fst (Products client (constant_env failed_result)) = Inl TypeError \<and>
   \<not> loading no_thumbnail_result \<and>
   fst (Products client (constant_env no_thumbnail_result)) = Inl TypeError \<and>
   (\<exists>v. fst (Products client (constant_env resolved_result)) = Inr v)"
proof -
  have a: "respond (constant_env failed_result) (uri client) GET_PRODUCTS = failed_result"
    by (simp add: constant_env_def)
  have b: "respond (constant_env no_thumbnail_result) (uri client) GET_PRODUCTS = no_thumbnail_result"
    by (simp add: constant_env_def)
  have c: "respond (constant_env resolved_result) (uri client) GET_PRODUCTS = resolved_result"
    by (simp add: constant_env_def)
  have fa: "\<not> loading failed_result" "data failed_result = None"
    by (simp_all add: failed_result_def)
  have nt: "\<not> loading no_thumbnail_result"
    "\<not> (\<exists>d p. data no_thumbnail_result = Some d \<and> products d = Some p \<and>
          list_all renderable (edges p))"
    by (auto simp: no_thumbnail_result_def no_thumbnail_edges_def renderable_def)
  have re: "\<exists>d p. data resolved_result = Some d \<and> products d = Some p \<and>
          list_all renderable (edges p)"
    by (simp add: resolved_result_def example_edges_def renderable_def)
  from Products_total_iff [OF a] fa
  have 1: "fst (Products client (constant_env failed_result)) = Inl TypeError" by simp
  from Products_total_iff [OF b] nt
  have 2: "fst (Products client (constant_env no_thumbnail_result)) = Inl TypeError" by blast
  from Products_total_iff [OF c] re
  have 3: "\<exists>v. fst (Products client (constant_env resolved_result)) = Inr v" by blast
  from 1 2 3 fa nt(1) show ?thesis by simp
qed

section \<open>The grid is the pointwise image of the edges\<close>

text \<open>
  C10, as stated, fails: on a resolved result whose edge at index 0 has a product without
  a thumbnail, the item renderer throws for that edge and the render has no cell at all.
\<close>

theorem Products_cells_pointwise_counterexample:
  "\<not> loading no_thumbnail_result \<and>
   data no_thumbnail_result = Some \<lparr>products = Some \<lparr>edges = no_thumbnail_edges\<rparr>\<rparr> \<and>
   0 < length no_thumbnail_edges \<and>
   renderItem \<lparr>item = no_thumbnail_edges ! 0, index = 0\<rparr> = Inl TypeError \<and>
   fst (Products client (constant_env no_thumbnail_result)) = Inl TypeError"
  by (simp add: Products_def useQuery_def constant_env_def no_thumbnail_result_def
      no_thumbnail_edges_def FlatList_def ListHeaderComponent_def keyExtractor_def
      renderItem_def)

text \<open>
  C10, amended. For a resolved result in which every edge has a node with a non-null
  thumbnail, the cells of the grid are the item renderer applied to the edges, in order:
  there are as many cells as edges, and the i-th cell is what \<^verbatim>\<open>renderItem\<close>
  returns for the i-th edge, showing the name and the thumbnail URL of the node of that
  edge.
\<close>

theorem Products_cells_pointwise:
  assumes "respond env (uri ctx) GET_PRODUCTS = r"
    and "\<not> loading r" and "data r = Some d" and "products d = Some p"
    and "list_all renderable (edges p)"
  shows "\<exists>h rows.
           fst (Products ctx env) =
             Inr (SafeAreaView Products_styles_container [FlatListView h 2 rows]) \<and>
           length (concat rows) = length (edges p) \<and>
           (\<forall>i<length (edges p).
              renderItem \<lparr>item = edges p ! i, index = i\<rparr> = Inr (snd (concat rows ! i)) \<and>
              (\<exists>n t. node (edges p ! i) = Some n \<and> thumbnail n = Some t \<and>
                     view_texts (snd (concat rows ! i)) = [name n, ''$4.50''] \<and>
                     view_images (snd (concat rows ! i)) = [url t]))"
proof -
  from assms Products_resolved_cells [of env ctx d p]
  obtain cs where
    out: "fst (Products ctx env) =
            Inr (SafeAreaView Products_styles_container
                   [FlatListView (Text styles_title ''Products'') 2 (rows_of 2 cs)])" and
    cs: "render_cells renderItem keyExtractor 0 (edges p) = Inr cs"
    by auto
  from render_cells_Inr [OF cs] have
    len: "length cs = length (edges p)" and
    cell: "\<And>j. j < length (edges p) \<Longrightarrow>
             renderItem \<lparr>item = edges p ! j, index = j\<rparr> = Inr (snd (cs ! j))"
    by simp_all
  have shown: "\<exists>n t. node (edges p ! i) = Some n \<and> thumbnail n = Some t \<and>
                 view_texts (snd (cs ! i)) = [name n, ''$4.50''] \<and>
                 view_images (snd (cs ! i)) = [url t]"
    if i: "i < length (edges p)" for i
  proof -
    from assms(5) i have "renderable (edges p ! i)" by (simp add: list_all_length)
    from renderable_Some [OF this] obtain n t where
      n: "node (edges p ! i) = Some n" and t: "thumbnail n = Some t" by auto
    from renderItem_Some [OF n t, of i] cell [OF i]
    have "snd (cs ! i) =
            View styles_product
              [Image' (url t) [(''height'', Num 150), (''width'', Num 150)],
               Text [(''fontSize'', Num 16), (''fontWeight'', Str ''bold'')] (name n),
               Text [] ''$4.50'']"
      by simp
    with n t show ?thesis by simp
  qed
  from out len cell shown show ?thesis
    by (simp add: concat_rows_of)
qed

theorem Products_cells_pointwise_witness:
  "\<not> loading resolved_result \<and> list_all renderable example_edges \<and>
   (\<exists>h rows.
      fst (Products client (constant_env resolved_result)) =
        Inr (SafeAreaView Products_styles_container [FlatListView h 2 rows]) \<and>
      length (concat rows) = 3 \<and>
      view_texts (snd (concat rows ! 0)) = [''Apple Juice'', ''$4.50''] \<and>
      view_texts (snd (concat rows ! 1)) = [''Banana Juice'', ''$4.50''] \<and>
      view_images (snd (concat rows ! 2)) = [''https://demo.saleor.io/media/bean.png''])"
proof -
  have a: "respond (constant_env resolved_result) (uri client) GET_PRODUCTS = resolved_result"
    by (simp add: constant_env_def)
  have b: "\<not> loading resolved_result"
    by (simp add: resolved_result_def)
  have c: "data resolved_result = Some \<lparr>products = Some \<lparr>edges = example_edges\<rparr>\<rparr>"
    by (simp add: resolved_result_def)
  have d: "products \<lparr>products = Some \<lparr>edges = example_edges\<rparr>\<rparr> = Some \<lparr>edges = example_edges\<rparr>"
    by simp
  have e: "list_all renderable (edges \<lparr>edges = example_edges\<rparr>)"
    by (simp add: example_edges_def renderable_def)
  have g: "length example_edges = 3"
    by (simp add: example_edges_def)
  from Products_cells_pointwise [OF a b c d e] obtain h rows where
    out: "fst (Products client (constant_env resolved_result)) =
            Inr (SafeAreaView Products_styles_container [FlatListView h 2 rows])" and
    len: "length (concat rows) = length example_edges" and
    cells: "\<And>i. i < length example_edges \<Longrightarrow>
              \<exists>n t. node (example_edges ! i) = Some n \<and> thumbnail n = Some t \<and>
                     view_texts (snd (concat rows ! i)) = [name n, ''$4.50''] \<and>
                     view_images (snd (concat rows ! i)) = [url t]"
    by auto
  from cells [of 0] g have 0: "view_texts (snd (concat rows ! 0)) = [''Apple Juice'', ''$4.50'']"
    by (auto simp: example_edges_def)
  from cells [of 1] g have 1: "view_texts (snd (concat rows ! 1)) = [''Banana Juice'', ''$4.50'']"
    by (auto simp: example_edges_def)
  from cells [of 2] g
  have 2: "view_images (snd (concat rows ! 2)) = [''https://demo.saleor.io/media/bean.png'']"
    by (auto simp: example_edges_def)
  from out len g 0 1 2 b e show ?thesis by auto
qed

end
